theory Spec2Isabelle
  imports Complex_Main
begin

section \<open>The OpenCV interface\<close>

text \<open>
  The program calls OpenCV for every operation on pixels. These functions are
  not part of the repository, so the model takes them as a parameter: a record
  with one field per function the source calls, with the same argument order.
  Type \<open>'f\<close> is a colour frame, \<open>'g\<close> a single-channel image and \<open>'c\<close> a contour.
\<close>

datatype kernel = Ones nat nat | NoKernel

record ('f, 'g, 'c) cv2 =
  cvtColor :: "'f \<Rightarrow> 'g"
  GaussianBlur :: "'g \<Rightarrow> nat \<times> nat \<Rightarrow> nat \<Rightarrow> 'g"
  absdiff :: "'g \<Rightarrow> 'g \<Rightarrow> 'g"
  threshold :: "'g \<Rightarrow> nat \<Rightarrow> nat \<Rightarrow> 'g"
  dilate :: "'g \<Rightarrow> kernel \<Rightarrow> nat \<Rightarrow> 'g"
  findContours :: "'g \<Rightarrow> 'c list"
  contourArea :: "'c \<Rightarrow> real"
  imencode :: "'f \<Rightarrow> string option"
  zeros :: "nat \<Rightarrow> nat \<Rightarrow> nat \<Rightarrow> 'f"
  getTextSize :: "string \<Rightarrow> nat \<Rightarrow> nat \<Rightarrow> int \<times> int"
  putText :: "'f \<Rightarrow> string \<Rightarrow> int \<times> int \<Rightarrow> 'f"
  rectangle :: "'f \<Rightarrow> int \<times> int \<Rightarrow> int \<times> int \<Rightarrow> 'f"
  circle :: "'f \<Rightarrow> int \<times> int \<Rightarrow> nat \<Rightarrow> 'f"

section \<open>camera.py: the event log\<close>

text \<open>
  An event is the dictionary with the keys \<open>timestamp\<close> and \<open>type\<close>. The events
  file is absent, or holds the JSON list that an earlier \<open>json.dump\<close> wrote, or
  holds text on which \<open>json.load\<close> raises.
\<close>

record event =
  timestamp :: string
  etype :: string

datatype events_store = NoFile | Events "event list" | Unparsable string

text \<open>
  \<open>_log_event\<close>: start from the empty list, replace it by the parsed file when
  the file exists and parses, append, write the whole list back. The argument
  \<open>now\<close> is what \<open>datetime.now().isoformat()\<close> returns.
\<close>

definition loaded :: "events_store \<Rightarrow> event list" where
  "loaded f = (case f of NoFile \<Rightarrow> [] | Events es \<Rightarrow> es | Unparsable _ \<Rightarrow> [])"

definition log_event_file :: "string \<Rightarrow> string \<Rightarrow> events_store \<Rightarrow> events_store" where
  "log_event_file now event_type f =
     Events (loaded f @ [\<lparr>timestamp = now, etype = event_type\<rparr>])"

section \<open>camera.py: SecurityCamera\<close>

text \<open>
  A video writer is the file it writes, the frames written so far and whether it
  is still open (\<open>release\<close> closes it).
\<close>

record 'f writer =
  filename :: string
  frames :: "'f list"
  opened :: bool

text \<open>
  The object's fields, and the two places on disk it owns: the contents of
  \<open>events_file\<close> and the writers created under \<open>recordings_dir\<close>. \<open>cap\<close> is
  \<open>None\<close> when no device could be opened, otherwise the index of the device.
\<close>

record ('f, 'g) SecurityCamera =
  camera_index :: int
  cap :: "int option"
  is_recording :: bool
  motion_detected :: bool
  last_frame :: "'g option"
  motion_threshold :: int
  events_file :: events_store
  recordings_dir :: "'f writer list"

definition log_event ::
  "string \<Rightarrow> string \<Rightarrow> ('f, 'g) SecurityCamera \<Rightarrow> ('f, 'g) SecurityCamera" where
  "log_event now event_type self =
     self\<lparr>events_file := log_event_file now event_type (events_file self)\<rparr>"

text \<open>
  \<open>_init_camera\<close>: \<open>avail i\<close> tells whether \<open>cv2.VideoCapture(i).isOpened()\<close>.
  The configured index is tried first, then 1, 2 and 3 in this order.
\<close>

definition init_camera ::
  "(int \<Rightarrow> bool) \<Rightarrow> ('f, 'g) SecurityCamera \<Rightarrow> ('f, 'g) SecurityCamera" where
  "init_camera avail self =
     (if avail (camera_index self) then self\<lparr>cap := Some (camera_index self)\<rparr>
      else (case find avail [1, 2, 3] of
              Some i \<Rightarrow> self\<lparr>cap := Some i, camera_index := i\<rparr>
            | None \<Rightarrow> self\<lparr>cap := None\<rparr>))"

text \<open>\<open>__init__\<close>, with the events file as it is found on disk.\<close>

definition new_camera ::
  "(int \<Rightarrow> bool) \<Rightarrow> int \<Rightarrow> events_store \<Rightarrow> ('f, 'g) SecurityCamera" where
  "new_camera avail idx ev =
     init_camera avail
       \<lparr>camera_index = idx, cap = None, is_recording = False, motion_detected = False,
        last_frame = None, motion_threshold = 30, events_file = ev, recordings_dir = []\<rparr>"

subsection \<open>detect_motion\<close>

text \<open>The loop over the contours, left at the first contour above the threshold.\<close>

fun significant :: "('f, 'g, 'c) cv2 \<Rightarrow> int \<Rightarrow> 'c list \<Rightarrow> bool" where
  "significant cv thr [] = False"
| "significant cv thr (contour # contours) =
     (if contourArea cv contour > real_of_int thr then True
      else significant cv thr contours)"

text \<open>The mask whose contours are measured: camera.py lines 61 to 66.\<close>

definition motion_mask :: "('f, 'g, 'c) cv2 \<Rightarrow> 'g \<Rightarrow> 'g \<Rightarrow> 'g" where
  "motion_mask cv reference gray =
     dilate cv (threshold cv (absdiff cv reference gray) 25 255) (Ones 5 5) 2"

definition detect_motion ::
  "('f, 'g, 'c) cv2 \<Rightarrow> 'f \<Rightarrow> ('f, 'g) SecurityCamera \<Rightarrow> bool \<times> ('f, 'g) SecurityCamera" where
  "detect_motion cv frame self =
     (case last_frame self of
        None \<Rightarrow> (False, self\<lparr>last_frame := Some (cvtColor cv frame)\<rparr>)
      | Some reference \<Rightarrow>
          (let gray = GaussianBlur cv (cvtColor cv frame) (21, 21) 0;
               contours = findContours cv (motion_mask cv reference gray)
           in (significant cv (motion_threshold self) contours,
               self\<lparr>last_frame := Some gray\<rparr>)))"

section \<open>The GUI: detect_motion\<close>

text \<open>
  \<open>SecurityCameraGUI\<close> keeps one reference per camera in the dictionary \<open>last_frames\<close>, whose
  entries are \<open>None\<close> until the first frame. Only the fields the detector uses
  are modelled.
\<close>

record 'g SecurityCameraGUI =
  last_frames :: "string \<rightharpoonup> 'g option"
  gui_motion_threshold :: int

definition gui_detect_motion ::
  "('f, 'g, 'c) cv2 \<Rightarrow> string \<Rightarrow> 'f \<Rightarrow> 'g SecurityCameraGUI \<Rightarrow> bool \<times> 'g SecurityCameraGUI" where
  "gui_detect_motion cv cam_id frame self =
     (case last_frames self cam_id of
        None \<Rightarrow> (False, self\<lparr>last_frames := (last_frames self)(cam_id \<mapsto> Some (cvtColor cv frame))\<rparr>)
      | Some None \<Rightarrow> (False, self\<lparr>last_frames := (last_frames self)(cam_id \<mapsto> Some (cvtColor cv frame))\<rparr>)
      | Some (Some reference) \<Rightarrow>
          (let gray = GaussianBlur cv (cvtColor cv frame) (21, 21) 0;
               contours = findContours cv (motion_mask cv reference gray)
           in (significant cv (gui_motion_threshold self) contours,
               self\<lparr>last_frames := (last_frames self)(cam_id \<mapsto> Some gray)\<rparr>)))"

subsection \<open>The placeholder frame and the stream\<close>

text \<open>
  \<open>_create_dummy_frame\<close> takes no input and reads no field: a black 640 by 480
  frame with the text centred and the camera icon drawn over it. Font, colour
  and line width are constants of the source and are left to the drawing
  functions.
\<close>

definition create_dummy_frame :: "('f, 'g, 'c) cv2 \<Rightarrow> 'f" where
  "create_dummy_frame cv =
     (let frame = zeros cv 480 640 3;
          text = ''No Camera Available'';
          text_size = getTextSize cv text 1 2;
          text_x = (640 - fst text_size) div 2;
          text_y = (480 + snd text_size) div 2;
          frame = putText cv frame text (text_x, text_y);
          frame = rectangle cv frame (280, 200) (360, 280);
          frame = circle cv frame (320, 240) 30
      in frame)"

text \<open>
  What the environment answers during one step of the program: the clock
  (\<open>time.time()\<close>), the two renderings of \<open>datetime.now()\<close>, and the capture
  device (\<open>isOpened()\<close>, and \<open>read()\<close> with \<open>None\<close> for \<open>ret = False\<close>).
\<close>

record 'f tick =
  clock :: real
  isoformat :: string
  strftime :: string
  cap_isOpened :: bool
  cap_read :: "'f option"

definition CRLF :: string where
  "CRLF = [CHR 0x0D, CHR 0x0A]"

definition mjpeg_part :: "string \<Rightarrow> string" where
  "mjpeg_part buffer =
     ''--frame'' @ CRLF @ ''Content-Type: image/jpeg'' @ CRLF @ CRLF @ buffer @ CRLF"

text \<open>
  One pass through the body of the \<open>while True\<close> of \<open>generate_frames\<close>. The
  result is \<open>None\<close> when the loop is left by \<open>break\<close>; otherwise the object
  after the pass, what was yielded (\<open>None\<close> when encoding failed and the loop
  went on without a yield) and whether a recording thread was started.
\<close>

definition encode_and_yield ::
  "('f, 'g, 'c) cv2 \<Rightarrow> 'f \<Rightarrow> ('f, 'g) SecurityCamera \<Rightarrow> bool
     \<Rightarrow> (('f, 'g) SecurityCamera \<times> string option \<times> bool) option" where
  "encode_and_yield cv frame self started =
     Some (self, map_option mjpeg_part (imencode cv frame), started)"

definition generate_frames_pass ::
  "('f, 'g, 'c) cv2 \<Rightarrow> 'f tick \<Rightarrow> ('f, 'g) SecurityCamera
     \<Rightarrow> (('f, 'g) SecurityCamera \<times> string option \<times> bool) option" where
  "generate_frames_pass cv t self =
     (case cap self of
        None \<Rightarrow> encode_and_yield cv (create_dummy_frame cv) self False
      | Some _ \<Rightarrow>
          if \<not> cap_isOpened t then None
          else (case cap_read t of
                  None \<Rightarrow> None
                | Some frame \<Rightarrow>
                    (let (motion, self) = detect_motion cv frame self in
                     if motion \<and> \<not> motion_detected self then
                       encode_and_yield cv frame
                         (log_event (isoformat t) ''motion_detected''
                            (self\<lparr>motion_detected := True\<rparr>)) True
                     else if \<not> motion then
                       encode_and_yield cv frame (self\<lparr>motion_detected := False\<rparr>) False
                     else encode_and_yield cv frame self False)))"

text \<open>
  The generator, driven for as many passes as there are ticks: the parts yielded
  so far, the object, and whether the generator is still alive (\<open>False\<close> once
  the loop was left).
\<close>

fun generate_frames ::
  "('f, 'g, 'c) cv2 \<Rightarrow> 'f tick list \<Rightarrow> ('f, 'g) SecurityCamera
     \<Rightarrow> string list \<times> ('f, 'g) SecurityCamera \<times> bool" where
  "generate_frames cv [] self = ([], self, True)"
| "generate_frames cv (t # ts) self =
     (case generate_frames_pass cv t self of
        None \<Rightarrow> ([], self, False)
      | Some (self', part, _) \<Rightarrow>
          (let (parts, self'', alive) = generate_frames cv ts self'
           in ((case part of None \<Rightarrow> parts | Some p \<Rightarrow> p # parts), self'', alive)))"

subsection \<open>Recording threads\<close>

text \<open>
  \<open>_record_clip\<close> runs in a thread of its own, started by \<open>manual_record\<close> and
  by \<open>generate_frames\<close>, so its statements interleave with those of the other
  threads. A thread is its argument, the statement it executes next, and its
  local variables \<open>out\<close> (the position of its writer among the recordings) and
  \<open>start_time\<close>. The program points are the line numbers of camera.py; lines
  159 to 168, which compute the file name, create the writer and read the clock,
  are one step, and so is one turn of the loop of line 171. A writer that has
  been released ignores \<open>write\<close>.
\<close>

datatype pc = Line148 | Line152 | Line156 | Line159 | Line171 | Line178 | Line179 | Returned

record clip_thread =
  trigger_type :: string
  pc :: pc
  out_pos :: nat
  start_time :: real

definition spawn_record_clip :: "string \<Rightarrow> clip_thread" where
  "spawn_record_clip trigger = \<lparr>trigger_type = trigger, pc = Line148, out_pos = 0, start_time = 0\<rparr>"

definition duration :: real where
  "duration = 10"

definition write_frame :: "'f \<Rightarrow> 'f writer \<Rightarrow> 'f writer" where
  "write_frame frame w = (if opened w then w\<lparr>frames := frames w @ [frame]\<rparr> else w)"

definition release :: "'f writer \<Rightarrow> 'f writer" where
  "release w = w\<lparr>opened := False\<rparr>"

definition on_writer ::
  "nat \<Rightarrow> ('f writer \<Rightarrow> 'f writer) \<Rightarrow> ('f, 'g) SecurityCamera \<Rightarrow> ('f, 'g) SecurityCamera" where
  "on_writer i f self =
     (if i < length (recordings_dir self)
      then self\<lparr>recordings_dir := (recordings_dir self)[i := f (recordings_dir self ! i)]\<rparr>
      else self)"

text \<open>One statement of \<open>_record_clip\<close>: the thread and the object after it.\<close>

definition record_clip_step ::
  "'f tick \<Rightarrow> clip_thread \<Rightarrow> ('f, 'g) SecurityCamera \<Rightarrow> clip_thread \<times> ('f, 'g) SecurityCamera" where
  "record_clip_step t th self =
     (case pc th of
        Line148 \<Rightarrow>
          if is_recording self then (th\<lparr>pc := Returned\<rparr>, self)
          else (th\<lparr>pc := Line152\<rparr>, self)
      | Line152 \<Rightarrow>
          if cap self = None
          then (th\<lparr>pc := Returned\<rparr>,
                log_event (isoformat t) (trigger_type th @ ''_no_camera'') self)
          else (th\<lparr>pc := Line156\<rparr>, self)
      | Line156 \<Rightarrow> (th\<lparr>pc := Line159\<rparr>, self\<lparr>is_recording := True\<rparr>)
      | Line159 \<Rightarrow>
          (th\<lparr>pc := Line171, out_pos := length (recordings_dir self), start_time := clock t\<rparr>,
           self\<lparr>recordings_dir := recordings_dir self @
              [\<lparr>filename = ''../recordings/'' @ trigger_type th @ ''_'' @ strftime t @ ''.mp4'',
                frames = [], opened = True\<rparr>]\<rparr>)
      | Line171 \<Rightarrow>
          if clock t - start_time th < duration then
            (th, if cap self \<noteq> None \<and> cap_isOpened t
                 then (case cap_read t of
                         Some frame \<Rightarrow> on_writer (out_pos th) (write_frame frame) self
                       | None \<Rightarrow> self)
                 else self)
          else (th\<lparr>pc := Line178\<rparr>, self)
      | Line178 \<Rightarrow> (th\<lparr>pc := Line179\<rparr>, on_writer (out_pos th) release self)
      | Line179 \<Rightarrow> (th\<lparr>pc := Returned\<rparr>, self\<lparr>is_recording := False\<rparr>)
      | Returned \<Rightarrow> (th, self))"

text \<open>
  \<open>_record_clip\<close> run alone, one tick per statement, until it returns:
  \<open>None\<close> when the ticks are used up before it has returned.
\<close>

fun run_clip ::
  "'f tick list \<Rightarrow> clip_thread \<Rightarrow> ('f, 'g) SecurityCamera \<Rightarrow> ('f, 'g) SecurityCamera option" where
  "run_clip [] th self = (if pc th = Returned then Some self else None)"
| "run_clip (t # ts) th self =
     (if pc th = Returned then Some self
      else (case record_clip_step t th self of (th', self') \<Rightarrow> run_clip ts th' self'))"

definition record_clip ::
  "string \<Rightarrow> 'f tick list \<Rightarrow> ('f, 'g) SecurityCamera \<Rightarrow> ('f, 'g) SecurityCamera option" where
  "record_clip trigger ts self = run_clip ts (spawn_record_clip trigger) self"

text \<open>
  The whole program: the object, the recording threads started so far, the
  parts the stream has yielded and whether the generator is alive.
\<close>

record ('f, 'g) program =
  camera :: "('f, 'g) SecurityCamera"
  threads :: "clip_thread list"
  streamed :: "string list"
  streaming :: bool

text \<open>
  \<open>manual_record\<close>: the answer and the program after the call. The thread is
  started, not run: its first statement is executed when it is scheduled.
\<close>

definition manual_record ::
  "'f tick \<Rightarrow> ('f, 'g) program \<Rightarrow> string \<times> ('f, 'g) program" where
  "manual_record t p =
     (if is_recording (camera p) then (''Already recording'', p)
      else (''Recording started'',
            p\<lparr>camera := log_event (isoformat t) ''manual_record'' (camera p),
              threads := threads p @ [spawn_record_clip ''manual'']\<rparr>))"

text \<open>
  What can happen next: a caller invokes \<open>manual_record\<close>, the stream consumer
  pulls the generator through one pass (which starts \<open>_record_motion_clip\<close>,
  that is \<open>_record_clip("motion")\<close>, on a rising motion edge), or the
  scheduler lets recording thread \<open>i\<close> execute its next statement. Each of
  the three is one step. The program holds no lock, and a thread can be
  preempted between any two of its statements, so every schedule of steps is an
  execution of the program.
\<close>

datatype 'f action = CallManualRecord "'f tick" | Stream "'f tick" | Thread nat "'f tick"

definition perform ::
  "('f, 'g, 'c) cv2 \<Rightarrow> 'f action \<Rightarrow> ('f, 'g) program \<Rightarrow> ('f, 'g) program" where
  "perform cv a p =
     (case a of
        CallManualRecord t \<Rightarrow> snd (manual_record t p)
      | Stream t \<Rightarrow>
          if \<not> streaming p then p
          else (case generate_frames_pass cv t (camera p) of
                  None \<Rightarrow> p\<lparr>streaming := False\<rparr>
                | Some (self, part, started) \<Rightarrow>
                    p\<lparr>camera := self,
                      streamed := streamed p @ (case part of None \<Rightarrow> [] | Some b \<Rightarrow> [b]),
                      threads := threads p @
                        (if started then [spawn_record_clip ''motion''] else [])\<rparr>)
      | Thread i t \<Rightarrow>
          if i < length (threads p)
          then (case record_clip_step t (threads p ! i) (camera p) of
                  (th, self) \<Rightarrow> p\<lparr>camera := self, threads := (threads p)[i := th]\<rparr>)
          else p)"

fun run :: "('f, 'g, 'c) cv2 \<Rightarrow> 'f action list \<Rightarrow> ('f, 'g) program \<Rightarrow> ('f, 'g) program" where
  "run cv [] p = p"
| "run cv (a # as) p = run cv as (perform cv a p)"

definition start :: "('f, 'g) SecurityCamera \<Rightarrow> ('f, 'g) program" where
  "start self = \<lparr>camera = self, threads = [], streamed = [], streaming = True\<rparr>"

definition open_writers :: "('f, 'g) SecurityCamera \<Rightarrow> nat" where
  "open_writers self = length (filter opened (recordings_dir self))"

section \<open>app.py: the capture loop and the record request\<close>

datatype error = AttributeError | KeyError | HTTPException nat string

text \<open>
  The module's globals: the dictionaries \<open>motion_detected\<close>, \<open>recording\<close> and
  \<open>output_dirs\<close>, and the attribute \<open>prev_frame\<close> that the loop keeps on its
  own function object.
\<close>

record 'g app_globals =
  app_motion_detected :: "string \<rightharpoonup> bool"
  app_recording :: "string \<rightharpoonup> bool"
  app_output_dirs :: "string \<rightharpoonup> string"
  app_prev_frame :: "'g option"

definition app_start :: "'g app_globals" where
  "app_start =
     \<lparr>app_motion_detected = [''cam1'' \<mapsto> False, ''cam2'' \<mapsto> False],
      app_recording = [''cam1'' \<mapsto> False, ''cam2'' \<mapsto> False],
      app_output_dirs = [''cam1'' \<mapsto> ''../recordings/cam1'', ''cam2'' \<mapsto> ''../recordings/cam2''],
      app_prev_frame = None\<rparr>"

text \<open>
  The state of one capture loop is the globals and the local variable \<open>out\<close>,
  which is \<open>None\<close> until the loop itself creates a writer. Each of the three
  \<open>if\<close> statements at the end of the body is a function of its own; a missing
  dictionary key and a method call on \<open>None\<close> raise.
\<close>

type_synonym ('f, 'g) loop_state = "'g app_globals \<times> 'f writer option"

definition lines_110_113 ::
  "string \<Rightarrow> 'f tick \<Rightarrow> bool \<Rightarrow> ('f, 'g) loop_state \<Rightarrow> error + ('f, 'g) loop_state" where
  "lines_110_113 cam_key t motion st =
     (case st of (g, out) \<Rightarrow>
        if motion then
          (case app_recording g cam_key of
             None \<Rightarrow> Inl KeyError
           | Some True \<Rightarrow> Inr (g, out)
           | Some False \<Rightarrow>
               (case app_output_dirs g cam_key of
                  None \<Rightarrow> Inl KeyError
                | Some dir \<Rightarrow>
                    Inr (g\<lparr>app_recording := (app_recording g)(cam_key \<mapsto> True)\<rparr>,
                         Some \<lparr>filename = dir @ ''/motion_'' @ strftime t @ ''.avi'',
                               frames = [], opened = True\<rparr>)))
        else Inr (g, out))"

definition lines_115_116 ::
  "string \<Rightarrow> 'f \<Rightarrow> ('f, 'g) loop_state \<Rightarrow> error + ('f, 'g) loop_state" where
  "lines_115_116 cam_key frame st =
     (case st of (g, out) \<Rightarrow>
        (case app_recording g cam_key of
           None \<Rightarrow> Inl KeyError
         | Some False \<Rightarrow> Inr (g, out)
         | Some True \<Rightarrow>
             (case out of
                None \<Rightarrow> Inl AttributeError
              | Some w \<Rightarrow> Inr (g, Some (write_frame frame w)))))"

definition lines_118_120 ::
  "string \<Rightarrow> bool \<Rightarrow> ('f, 'g) loop_state \<Rightarrow> error + ('f, 'g) loop_state" where
  "lines_118_120 cam_key motion st =
     (case st of (g, out) \<Rightarrow>
        if \<not> motion then
          (case app_recording g cam_key of
             None \<Rightarrow> Inl KeyError
           | Some False \<Rightarrow> Inr (g, out)
           | Some True \<Rightarrow>
               (case out of
                  None \<Rightarrow> Inl AttributeError
                | Some w \<Rightarrow>
                    Inr (g\<lparr>app_recording := (app_recording g)(cam_key \<mapsto> False)\<rparr>,
                         Some (release w))))
        else Inr (g, out))"

text \<open>The motion signal of app.py, lines 101 to 108.\<close>

definition app_motion :: "('f, 'g, 'c) cv2 \<Rightarrow> 'g \<Rightarrow> 'g \<Rightarrow> bool" where
  "app_motion cv prev gray =
     (let thresh = dilate cv (threshold cv (absdiff cv prev gray) 25 255) NoKernel 2;
          contours = findContours cv thresh
      in list_ex (\<lambda>c. contourArea cv c > 5000) contours)"

text \<open>
  One pass through the body of the loop: an exception, or \<open>None\<close> for
  \<open>break\<close>, or the state the next pass starts from.
\<close>

definition capture_pass ::
  "('f, 'g, 'c) cv2 \<Rightarrow> string \<Rightarrow> 'f tick \<Rightarrow> ('f, 'g) loop_state
     \<Rightarrow> error + ('f, 'g) loop_state option" where
  "capture_pass cv cam_key t st =
     (case st of (g, out) \<Rightarrow>
        (case cap_read t of
           None \<Rightarrow> Inr None
         | Some frame \<Rightarrow>
             (let gray = GaussianBlur cv (cvtColor cv frame) (21, 21) 0 in
              case app_prev_frame g of
                None \<Rightarrow> Inr (Some (g\<lparr>app_prev_frame := Some gray\<rparr>, out))
              | Some prev \<Rightarrow>
                  (let motion = app_motion cv prev gray;
                       g = g\<lparr>app_prev_frame := Some gray,
                             app_motion_detected := (app_motion_detected g)(cam_key \<mapsto> motion)\<rparr>
                   in case lines_110_113 cam_key t motion (g, out) of
                        Inl e \<Rightarrow> Inl e
                      | Inr st1 \<Rightarrow>
                          (case lines_115_116 cam_key frame st1 of
                             Inl e \<Rightarrow> Inl e
                           | Inr st2 \<Rightarrow>
                               (case lines_118_120 cam_key motion st2 of
                                  Inl e \<Rightarrow> Inl e
                                | Inr st3 \<Rightarrow> Inr (Some st3)))))))"

text \<open>
  The handler of \<open>POST /record\<close>: what the caller gets, and the globals after it.
\<close>

definition app_manual_record ::
  "string \<Rightarrow> 'g app_globals \<Rightarrow> (error + string) \<times> 'g app_globals" where
  "app_manual_record cam g =
     (if cam \<notin> set [''cam1'', ''cam2'']
      then (Inl (HTTPException 400 ''Invalid camera key''), g)
      else (Inr (''Manual recording started for '' @ cam),
            g\<lparr>app_recording := (app_recording g)(cam \<mapsto> True)\<rparr>))"

text \<open>
  The loop thread of one camera together with the requests that are served
  between two of its passes. The result is the exception that ended the thread,
  or the state reached and whether the loop is still running.
\<close>

datatype 'f happening = Pass "'f tick" | PostRecord string

fun detect_motion_and_record ::
  "('f, 'g, 'c) cv2 \<Rightarrow> string \<Rightarrow> 'f happening list \<Rightarrow> ('f, 'g) loop_state
     \<Rightarrow> error + (('f, 'g) loop_state \<times> bool)" where
  "detect_motion_and_record cv cam_key [] st = Inr (st, True)"
| "detect_motion_and_record cv cam_key (Pass t # hs) st =
     (case capture_pass cv cam_key t st of
        Inl e \<Rightarrow> Inl e
      | Inr None \<Rightarrow> Inr (st, False)
      | Inr (Some st') \<Rightarrow> detect_motion_and_record cv cam_key hs st')"
| "detect_motion_and_record cv cam_key (PostRecord cam # hs) st =
     detect_motion_and_record cv cam_key hs (snd (app_manual_record cam (fst st)), snd st)"

section \<open>A small instance of the OpenCV interface\<close>

text \<open>
  To run the definitions on concrete inputs, an instance of the interface on
  images that are constant along each column: a frame is the row of its
  columns' brightness values and every column is 16 pixels high. Blurring
  averages each column with its right neighbour and the contours of a mask are
  its maximal runs of set columns. The area of a run of \<open>n\<close> columns is the
  one OpenCV computes for it, that of the polygon through the centres of its
  border pixels: 15 (n - 1). Dilation is left out: the masks below are empty
  or cover the whole image, and dilation changes neither.
\<close>

fun runs :: "nat list \<Rightarrow> nat list \<Rightarrow> nat list list" where
  "runs [] cur = (if cur = [] then [] else [cur])"
| "runs (p # ps) cur =
     (if p = 0 then (if cur = [] then runs ps [] else cur # runs ps [])
      else runs ps (cur @ [p]))"

definition smooth :: "nat list \<Rightarrow> nat list" where
  "smooth xs = map (\<lambda>(a, b). (a + b) div 2) (zip xs (tl xs @ [last xs]))"

definition row_cv :: "(nat list, nat list, nat list) cv2" where
  "row_cv =
     \<lparr>cvtColor = (\<lambda>f. f),
      GaussianBlur = (\<lambda>g ksize sigma. smooth g),
      absdiff = (\<lambda>a b. map (\<lambda>(x, y). if x \<le> y then y - x else x - y) (zip a b)),
      threshold = (\<lambda>g t m. map (\<lambda>p. if p > t then m else 0) g),
      dilate = (\<lambda>g k n. g),
      findContours = (\<lambda>g. runs g []),
      contourArea = (\<lambda>c. real (15 * (length c - 1))),
      imencode = (\<lambda>f. if f = [] then None else Some (map char_of f)),
      zeros = (\<lambda>h w c. replicate c 0),
      getTextSize = (\<lambda>text scale thickness. (int (length text), 1)),
      putText = (\<lambda>f text org. f[0 := 255]),
      rectangle = (\<lambda>f p q. f[1 := 100]),
      circle = (\<lambda>f c r. f[2 := 100])\<rparr>"

definition at_time :: "real \<Rightarrow> nat list option \<Rightarrow> nat list tick" where
  "at_time c r =
     \<lparr>clock = c, isoformat = ''2024-01-01T00:00:00'', strftime = ''20240101_000000'',
      cap_isOpened = True, cap_read = r\<rparr>"

text \<open>Two frames of four columns: all dark, and all bright.\<close>

definition blank :: "nat list" where
  "blank = [0, 0, 0, 0]"

definition lit :: "nat list" where
  "lit = [200, 200, 200, 200]"

section \<open>Notions used in the statements\<close>

text \<open>The frames a recording loop writes during the given ticks.\<close>

definition grabbed :: "'f tick list \<Rightarrow> 'f list" where
  "grabbed ts = List.map_filter (\<lambda>t. if cap_isOpened t then cap_read t else None) ts"

definition written :: "'f list \<Rightarrow> 'f writer \<Rightarrow> 'f writer" where
  "written fs w = w\<lparr>frames := frames w @ fs\<rparr>"

text \<open>A sequence of calls of \<open>_log_event\<close>, each with its time and event type.\<close>

definition appends :: "(string \<times> string) list \<Rightarrow> events_store \<Rightarrow> events_store" where
  "appends calls f = foldl (\<lambda>f (now, ty). log_event_file now ty f) f calls"

text \<open>
  The states a program without a device stays in: nothing is being recorded,
  no writer exists, and every recording thread is before the test of \<open>cap\<close> or
  has returned.
\<close>

definition idle_without_device :: "('f, 'g) program \<Rightarrow> bool" where
  "idle_without_device p \<longleftrightarrow>
     cap (camera p) = None \<and> \<not> is_recording (camera p) \<and> recordings_dir (camera p) = [] \<and>
     list_all (\<lambda>th. pc th = Line148 \<or> pc th = Line152 \<or> pc th = Returned) (threads p)"

text \<open>
  Two schedules of a program whose device 3 opens. In the first, two calls of
  \<open>manual_record\<close> arrive before either thread has run, and the threads then
  take turns statement by statement. In the second, the stream sees motion
  appear, the motion thread starts recording, and the stream then sees the
  motion end while the thread keeps running.
\<close>

definition rapid_triggers :: "nat list action list" where
  "rapid_triggers =
     [CallManualRecord (at_time 0 None), CallManualRecord (at_time 0 None),
      Thread 0 (at_time 0 None), Thread 1 (at_time 0 None),
      Thread 0 (at_time 0 None), Thread 1 (at_time 0 None),
      Thread 0 (at_time 0 None), Thread 1 (at_time 0 None),
      Thread 0 (at_time 0 None), Thread 1 (at_time 0 None)]"

definition motion_then_still :: "nat list action list" where
  "motion_then_still =
     [Stream (at_time 0 (Some blank)), Stream (at_time 0 (Some lit)),
      Thread 0 (at_time 0 None), Thread 0 (at_time 0 None),
      Thread 0 (at_time 0 None), Thread 0 (at_time 0 None),
      Thread 0 (at_time 1 (Some lit)), Stream (at_time 1 (Some lit)),
      Thread 0 (at_time 2 (Some lit))]"

definition seeded :: "nat list app_globals" where
  "seeded = app_start\<lparr>app_prev_frame := Some blank\<rparr>"

definition recording_cam1 :: "nat list app_globals" where
  "recording_cam1 = seeded\<lparr>app_recording := (app_recording seeded)(''cam1'' \<mapsto> True)\<rparr>"

definition clip :: "nat list writer" where
  "clip = \<lparr>filename = ''../recordings/cam1/motion_20240101_000000.avi'', frames = [lit],
           opened = True\<rparr>"

definition device_3 :: "(nat list, nat list) SecurityCamera" where
  "device_3 = new_camera (\<lambda>i. i = 3) 3 NoFile"

definition no_device :: "(nat list, nat list) SecurityCamera" where
  "no_device = new_camera (\<lambda>i. False) 3 NoFile"

section \<open>The motion detector\<close>


text \<open>
  Claim C3. The first frame the detector processes after initialisation, or
  after its reference was cleared, never reports motion: the call returns
  \<open>False\<close> and does nothing but store the frame (converted to grayscale) as
  the new reference. This holds for the detector of camera.py and for the one
  of the GUI, whose reference is cleared when the camera has no entry in
  \<open>last_frames\<close> or the entry \<open>None\<close>.
\<close>

theorem first_frame_seeds_reference:
  "(last_frame self = None \<longrightarrow>
      detect_motion cv frame self = (False, self\<lparr>last_frame := Some (cvtColor cv frame)\<rparr>)) \<and>
   (last_frames gui cam_id = None \<or> last_frames gui cam_id = Some None \<longrightarrow>
      gui_detect_motion cv cam_id frame gui =
        (False, gui\<lparr>last_frames := (last_frames gui)(cam_id \<mapsto> Some (cvtColor cv frame))\<rparr>))"
  by (auto simp: detect_motion_def gui_detect_motion_def)

theorem first_frame_seeds_reference_witness:
  "last_frame (new_camera (\<lambda>i. True) 3 NoFile :: (nat list, nat list) SecurityCamera) = None \<and>
   fst (detect_motion row_cv [0, 200] (new_camera (\<lambda>i. True) 3 NoFile)) = False \<and>
   fst (gui_detect_motion row_cv ''video2'' [0, 200]
          \<lparr>last_frames = [''video2'' \<mapsto> None], gui_motion_threshold = 30\<rparr>) = False"
  using first_frame_seeds_reference
    [of "new_camera (\<lambda>i. True) 3 NoFile" row_cv "[0, 200]"
        "\<lparr>last_frames = [''video2'' \<mapsto> None], gui_motion_threshold = 30\<rparr>" "''video2''"]
  by (simp add: new_camera_def init_camera_def)







text \<open>
  Claim C4, which the code does not meet. On the seeding call the detectors of
  camera.py and of the GUI store the grayscale frame as it is, not its blurred
  version, so the next frame is compared with an unblurred reference; the
  capture loop of app.py blurs before it seeds. The first two conjuncts hold
  for every OpenCV; the last shows, on the small instance, a frame whose
  blurred version differs from its grayscale version.
\<close>

theorem seed_reference_is_not_blurred:
  "last_frame (snd (detect_motion cv frame (self\<lparr>last_frame := None\<rparr>))) =
     Some (cvtColor cv frame) \<and>
   last_frames (snd (gui_detect_motion cv cam_id frame
                  (gui\<lparr>last_frames := (last_frames gui)(cam_id \<mapsto> None)\<rparr>))) cam_id =
     Some (Some (cvtColor cv frame)) \<and>
   GaussianBlur row_cv (cvtColor row_cv [0, 200]) (21, 21) 0 \<noteq> cvtColor row_cv [0, 200]"
  by (simp add: detect_motion_def gui_detect_motion_def row_cv_def smooth_def)

lemma reference_after_evaluation:
  "last_frame self = Some reference \<Longrightarrow>
   last_frame (snd (detect_motion cv frame self)) =
     Some (GaussianBlur cv (cvtColor cv frame) (21, 21) 0)"
  by (simp add: detect_motion_def Let_def)

lemma app_seeds_blurred:
  "app_prev_frame g = None \<Longrightarrow> cap_read t = Some frame \<Longrightarrow>
   capture_pass cv cam_key t (g, out) =
     Inr (Some (g\<lparr>app_prev_frame := Some (GaussianBlur cv (cvtColor cv frame) (21, 21) 0)\<rparr>, out))"
  by (simp add: capture_pass_def Let_def)

section \<open>The stream without a device\<close>

lemma init_camera_no_device:
  "\<not> avail idx \<Longrightarrow> \<not> avail 1 \<Longrightarrow> \<not> avail 2 \<Longrightarrow> \<not> avail 3 \<Longrightarrow>
   cap (new_camera avail idx ev) = None"
  by (simp add: new_camera_def init_camera_def)

lemma generate_frames_no_device:
  "cap self = None \<Longrightarrow> imencode cv (create_dummy_frame cv) = Some buffer \<Longrightarrow>
   generate_frames cv ts self = (replicate (length ts) (mjpeg_part buffer), self, True)"
  by (induction ts) (simp_all add: generate_frames_pass_def encode_and_yield_def)

text \<open>
  Claim C6. When neither the configured index nor the indices 1, 2 and 3 open,
  construction ends with \<open>cap = None\<close> instead of failing, and the generator,
  pulled any number of times, is still alive, has left the object as it was and
  has yielded one part per pull, each the encoding of the one placeholder
  frame. The encoder is OpenCV's: the statement is for an encoder that accepts
  the placeholder frame.
\<close>

theorem no_device_streams_placeholder:
  fixes cv :: "('f, 'g, 'c) cv2"
  assumes "\<not> avail idx" and "\<not> avail 1" and "\<not> avail 2" and "\<not> avail 3"
    and "imencode cv (create_dummy_frame cv) = Some buffer"
  shows "cap (new_camera avail idx ev :: ('f, 'g) SecurityCamera) = None \<and>
         generate_frames cv ts (new_camera avail idx ev) =
           (replicate (length ts) (mjpeg_part buffer), new_camera avail idx ev, True)"
  using assms by (simp add: init_camera_no_device generate_frames_no_device)

theorem no_device_streams_placeholder_witness:
  "cap (new_camera (\<lambda>i. False) 3 NoFile :: (nat list, nat list) SecurityCamera) = None \<and>
   generate_frames row_cv [at_time 0 None, at_time 1 None] (new_camera (\<lambda>i. False) 3 NoFile) =
     (replicate (length [at_time 0 None, at_time 1 None])
        (mjpeg_part (map char_of [255, 100, 100 :: nat])),
      new_camera (\<lambda>i. False) 3 NoFile, True)"
proof -
  have enc: "imencode row_cv (create_dummy_frame row_cv) = Some (map char_of [255, 100, 100 :: nat])"
    by (simp add: create_dummy_frame_def row_cv_def numeral_3_eq_3)
  have no: "\<not> (\<lambda>i::int. False) k" for k by simp
  show ?thesis
    by (rule no_device_streams_placeholder [OF no no no no enc])
qed

section \<open>The event log\<close>

lemma log_event_fields [simp]:
  "cap (log_event now ty self) = cap self"
  "is_recording (log_event now ty self) = is_recording self"
  "recordings_dir (log_event now ty self) = recordings_dir self"
  "motion_detected (log_event now ty self) = motion_detected self"
  "events_file (log_event now ty self) =
     Events (loaded (events_file self) @ [\<lparr>timestamp = now, etype = ty\<rparr>])"
  by (simp_all add: log_event_def log_event_file_def)

lemma log_event_file_cases:
  "log_event_file now ty NoFile = Events [\<lparr>timestamp = now, etype = ty\<rparr>]"
  "log_event_file now ty (Events es) = Events (es @ [\<lparr>timestamp = now, etype = ty\<rparr>])"
  "log_event_file now ty (Unparsable raw) = Events [\<lparr>timestamp = now, etype = ty\<rparr>]"
  by (simp_all add: log_event_file_def loaded_def)

lemma appends_Events:
  "appends calls (Events es) =
     Events (es @ map (\<lambda>(now, ty). \<lparr>timestamp = now, etype = ty\<rparr>) calls)"
  unfolding appends_def
  by (induction calls arbitrary: es) (auto simp: log_event_file_cases)

text \<open>
  Claim C9 says that every append keeps what the log held. It does not when the
  file exists and \<open>json.load\<close> raises on it: the handler of that exception
  starts from the empty list, and the write replaces the file. Here the file
  holds a dump that was cut short after its first record; after the append it
  holds the new event and nothing else.
\<close>

theorem append_replaces_unparsable_log:
  "events_file
     (log_event ''2024-01-01T00:00:09'' ''manual_record''
        (device_3\<lparr>events_file := Unparsable ''[{timestamp: 2024-01-01T00:00:00, type: motion_detected}, ''\<rparr>)) =
   Events [\<lparr>timestamp = ''2024-01-01T00:00:09'', etype = ''manual_record''\<rparr>]"
  by (simp add: loaded_def)

text \<open>
  Claim C9 as amended. When the events file is absent or parses, an append
  writes the list it held, unchanged and in the same order, followed by the new
  event, so that after any number of appends the file holds the events in the
  order of the calls and parses again; the other fields of the object are not
  touched. When the file exists and does not parse, the append writes a log
  that holds the new event only.
\<close>

theorem append_keeps_parsed_log:
  "events_file (log_event now ty (self\<lparr>events_file := NoFile\<rparr>)) =
     Events [\<lparr>timestamp = now, etype = ty\<rparr>] \<and>
   events_file (log_event now ty (self\<lparr>events_file := Events es\<rparr>)) =
     Events (es @ [\<lparr>timestamp = now, etype = ty\<rparr>]) \<and>
   events_file (log_event now ty (self\<lparr>events_file := Unparsable raw\<rparr>)) =
     Events [\<lparr>timestamp = now, etype = ty\<rparr>] \<and>
   appends calls (Events es) =
     Events (es @ map (\<lambda>(now, ty). \<lparr>timestamp = now, etype = ty\<rparr>) calls) \<and>
   log_event now ty self = self\<lparr>events_file := log_event_file now ty (events_file self)\<rparr>"
  by (simp add: log_event_file_cases appends_Events log_event_def)

section \<open>The record request of app.py\<close>

lemma unknown_camera_is_rejected:
  "cam \<notin> {''cam1'', ''cam2''} \<Longrightarrow>
   app_manual_record cam g = (Inl (HTTPException 400 ''Invalid camera key''), g)"
  by (simp add: app_manual_record_def)

lemma known_camera_sets_flag:
  "cam \<in> {''cam1'', ''cam2''} \<Longrightarrow>
   app_manual_record cam g =
     (Inr (''Manual recording started for '' @ cam),
      g\<lparr>app_recording := (app_recording g)(cam \<mapsto> True)\<rparr>)"
  by (auto simp: app_manual_record_def)

text \<open>
  Claim C8, which the code does not meet. A request for an unknown camera is
  rejected and changes nothing, as the claim says. A request for a known
  camera answers "Manual recording started" and sets the camera's entry of
  \<open>recording\<close>, but it opens no clip: the writer is a local variable of the
  capture loop, which the handler cannot reach. In a loop that has not yet
  recorded, the next pass that evaluates a frame finds the flag set and
  \<open>out = None\<close> and ends the loop with an exception, whatever the frame and
  whatever OpenCV computes: no frame is recorded.
\<close>

theorem record_request_starts_no_recording:
  "fst (app_manual_record ''cam1'' g) = Inr ''Manual recording started for cam1'' \<and>
   app_recording (snd (app_manual_record ''cam1'' g)) ''cam1'' = Some True \<and>
   capture_pass cv ''cam1'' (t\<lparr>cap_read := Some frame\<rparr>)
     (snd (app_manual_record ''cam1'' (g\<lparr>app_prev_frame := Some prev\<rparr>)), None) =
     Inl AttributeError"
  by (simp add: app_manual_record_def capture_pass_def Let_def lines_110_113_def
      lines_115_116_def)

text \<open>
  Claim C10, which the code does not meet, by the same defect. The request
  handler sets the recording flag and opens no writer, and \<open>out\<close> is still \<open>None\<close> in a loop that
  has seen no motion. After a request for \<open>cam1\<close> the first pass seeds the
  reference and goes on; the second reaches \<open>out.write(frame)\<close> with the flag
  set and \<open>out = None\<close>, and the loop ends with the exception.
\<close>

theorem record_request_writes_without_writer:
  "detect_motion_and_record row_cv ''cam1''
     [PostRecord ''cam1'', Pass (at_time 0 (Some blank)), Pass (at_time 1 (Some blank))]
     (app_start, None) = Inl AttributeError"
  by (simp add: capture_pass_def app_start_def at_time_def row_cv_def smooth_def blank_def
      app_manual_record_def lines_110_113_def lines_115_116_def lines_118_120_def app_motion_def)

section \<open>Recording without a device\<close>

lemma idle_manual_record:
  "idle_without_device p \<Longrightarrow> idle_without_device (snd (manual_record t p))"
  by (simp add: idle_without_device_def manual_record_def spawn_record_clip_def)

lemma idle_stream:
  "idle_without_device p \<Longrightarrow> idle_without_device (perform cv (Stream t) p)"
  by (auto simp: idle_without_device_def perform_def generate_frames_pass_def encode_and_yield_def)

lemma idle_step:
  assumes "cap self = None" "\<not> is_recording self" "recordings_dir self = []"
    and "pc th = Line148 \<or> pc th = Line152 \<or> pc th = Returned"
    and "record_clip_step t th self = (th', self')"
  shows "cap self' = None \<and> \<not> is_recording self' \<and> recordings_dir self' = [] \<and>
         (pc th' = Line148 \<or> pc th' = Line152 \<or> pc th' = Returned)"
  using assms by (auto simp: record_clip_step_def split: pc.splits)

lemma idle_thread:
  assumes "idle_without_device p"
  shows "idle_without_device (perform cv (Thread i t) p)"
proof (cases "i < length (threads p)")
  case False
  then show ?thesis using assms by (simp add: perform_def)
next
  case True
  obtain th' self' where st: "record_clip_step t (threads p ! i) (camera p) = (th', self')"
    by (cases "record_clip_step t (threads p ! i) (camera p)")
  have "pc (threads p ! i) = Line148 \<or> pc (threads p ! i) = Line152 \<or>
        pc (threads p ! i) = Returned"
    using assms True by (simp add: idle_without_device_def list_all_length)
  with assms st have *: "cap self' = None \<and> \<not> is_recording self' \<and> recordings_dir self' = [] \<and>
         (pc th' = Line148 \<or> pc th' = Line152 \<or> pc th' = Returned)"
    by (intro idle_step[of "camera p" "threads p ! i" t th' self'])
       (simp_all add: idle_without_device_def)
  have "list_all (\<lambda>th. pc th = Line148 \<or> pc th = Line152 \<or> pc th = Returned)
          ((threads p)[i := th'])"
    using assms * set_update_subset_insert[of "threads p" i th']
    by (auto simp: idle_without_device_def list_all_iff)
  with * show ?thesis using True st by (simp add: perform_def idle_without_device_def)
qed

lemma idle_perform:
  assumes "idle_without_device p"
  shows "idle_without_device (perform cv a p)"
proof (cases a)
  case (CallManualRecord t)
  then show ?thesis using idle_manual_record[OF assms, of t] by (simp add: perform_def)
next
  case (Stream t)
  then show ?thesis using idle_stream[OF assms] by simp
next
  case (Thread i t)
  then show ?thesis using idle_thread[OF assms] by simp
qed

lemma idle_run:
  "idle_without_device p \<Longrightarrow> idle_without_device (run cv acts p)"
  by (induction acts arbitrary: p) (simp_all add: idle_perform)

lemma idle_start:
  "cap self = None \<Longrightarrow> \<not> is_recording self \<Longrightarrow> recordings_dir self = [] \<Longrightarrow>
   idle_without_device (start self)"
  by (simp add: idle_without_device_def start_def)

lemma new_camera_fields [simp]:
  "\<not> is_recording (new_camera avail idx ev)"
  "recordings_dir (new_camera avail idx ev) = []"
  "last_frame (new_camera avail idx ev) = None"
  "motion_threshold (new_camera avail idx ev) = 30"
  "events_file (new_camera avail idx ev) = ev"
  by (simp_all add: new_camera_def init_camera_def split: option.splits)

lemma record_clip_no_device:
  "cap self = None \<Longrightarrow> \<not> is_recording self \<Longrightarrow>
   record_clip trigger (t1 # t2 # ts) self =
     Some (log_event (isoformat t2) (trigger @ ''_no_camera'') self)"
  by (cases ts) (simp_all add: record_clip_def spawn_record_clip_def record_clip_step_def)

text \<open>
  Claim C7. Take a camera that was constructed without a device, after any
  sequence of calls of \<open>manual_record\<close>, pulls of the stream and steps of
  recording threads. A recording thread started now, for any trigger, returns
  after it has appended the event \<open>trigger_no_camera\<close> to the log, and no
  writer exists before or after it. In particular a call of \<open>manual_record\<close>
  followed by the two statements of its thread appends \<open>manual_record\<close> and
  then \<open>manual_no_camera\<close> and changes nothing else.
\<close>

theorem no_device_trigger_logs_event:
  fixes cv :: "('f, 'g, 'c) cv2"
  assumes "cap (new_camera avail idx ev :: ('f, 'g) SecurityCamera) = None"
  shows "(let p = run cv acts (start (new_camera avail idx ev));
             self = camera p;
             self' = log_event (isoformat t2) (trigger @ ''_no_camera'') self
         in record_clip trigger (t1 # t2 # ts) self = Some self' \<and>
            events_file self' =
              Events (loaded (events_file self) @
                        [\<lparr>timestamp = isoformat t2, etype = trigger @ ''_no_camera''\<rparr>]) \<and>
            recordings_dir self = [] \<and> recordings_dir self' = [] \<and>
            camera (run cv [CallManualRecord t0, Thread (length (threads p)) t1,
                            Thread (length (threads p)) t2] p) =
              log_event (isoformat t2) ''manual_no_camera''
                (log_event (isoformat t0) ''manual_record'' self))"
proof -
  let ?p = "run cv acts (start (new_camera avail idx ev))"
  have inv: "idle_without_device ?p"
    using assms by (intro idle_run idle_start) simp_all
  then have c: "cap (camera ?p) = None" and r: "\<not> is_recording (camera ?p)"
    and d: "recordings_dir (camera ?p) = []"
    by (simp_all add: idle_without_device_def)
  have m: "camera (run cv [CallManualRecord t0, Thread (length (threads ?p)) t1,
                            Thread (length (threads ?p)) t2] ?p) =
              log_event (isoformat t2) ''manual_no_camera''
                (log_event (isoformat t0) ''manual_record'' (camera ?p))"
    using c r by (simp add: perform_def manual_record_def spawn_record_clip_def
        record_clip_step_def nth_append)
  show ?thesis
    using record_clip_no_device[OF c r, of trigger t1 t2 ts] d m
    by (simp add: Let_def)
qed

theorem no_device_trigger_logs_event_witness:
  "events_file (camera (run row_cv
      [Stream (at_time 0 None), CallManualRecord (at_time 1 None),
       Thread 0 (at_time 2 None), Thread 0 (at_time 3 None)] (start no_device))) =
     Events [\<lparr>timestamp = ''2024-01-01T00:00:00'', etype = ''manual_record''\<rparr>,
             \<lparr>timestamp = ''2024-01-01T00:00:00'', etype = ''manual_no_camera''\<rparr>] \<and>
   recordings_dir (camera (run row_cv
      [Stream (at_time 0 None), CallManualRecord (at_time 1 None),
       Thread 0 (at_time 2 None), Thread 0 (at_time 3 None)] (start no_device))) = []"
proof -
  have h: "cap (new_camera (\<lambda>i. False) 3 NoFile :: (nat list, nat list) SecurityCamera) = None"
    by (simp add: new_camera_def init_camera_def)
  have t: "threads (run row_cv [Stream (at_time 0 None)] (start (new_camera (\<lambda>i. False) 3 NoFile))) = []"
    by (simp add: perform_def start_def generate_frames_pass_def encode_and_yield_def
        new_camera_def init_camera_def)
  have e: "events_file (camera (run row_cv [Stream (at_time 0 None)]
             (start (new_camera (\<lambda>i. False) 3 NoFile)))) = NoFile"
    by (simp add: perform_def start_def generate_frames_pass_def encode_and_yield_def
        new_camera_def init_camera_def)
  from no_device_trigger_logs_event
    [OF h, of row_cv "[Stream (at_time 0 None)]" "at_time 3 None" "''manual''"
       "at_time 2 None" "[]" "at_time 1 None"] t e
  show ?thesis
    by (simp add: Let_def no_device_def at_time_def loaded_def)
qed

section \<open>Recording sessions\<close>

lemma trigger_while_recording_is_ignored:
  "is_recording (camera p) \<Longrightarrow> manual_record t p = (''Already recording'', p)"
  "is_recording self \<Longrightarrow> pc th = Line148 \<Longrightarrow>
   record_clip_step t th self = (th\<lparr>pc := Returned\<rparr>, self)"
  by (simp_all add: manual_record_def record_clip_step_def)

text \<open>
  Claim C1, which the code does not meet. A trigger that finds \<open>is_recording\<close>
  set is ignored, but the flag is tested on line 148 and set on line 156, and
  nothing keeps a second thread from running its test between the two. With
  two calls of \<open>manual_record\<close> before either thread has run, and the threads
  taking turns, both threads pass the test, both set the flag and both create
  a writer: two writers of the one camera are open at the same time.
\<close>

theorem rapid_triggers_open_two_writers:
  "open_writers (camera (run row_cv rapid_triggers (start device_3))) = 2 \<and>
   map pc (threads (run row_cv rapid_triggers (start device_3))) = [Line171, Line171]"
  by (simp add: rapid_triggers_def device_3_def open_writers_def perform_def manual_record_def
      start_def new_camera_def init_camera_def spawn_record_clip_def record_clip_step_def
      at_time_def)

lemma grabbed_simps [simp]:
  "grabbed [] = []"
  "grabbed (t # ts) =
     (if cap_isOpened t
      then (case cap_read t of Some f \<Rightarrow> f # grabbed ts | None \<Rightarrow> grabbed ts)
      else grabbed ts)"
  by (simp_all add: grabbed_def List.map_filter_simps split: option.splits)

lemma loop_until_duration:
  assumes "pc th = Line171" and "cap self \<noteq> None"
    and "recordings_dir self = ws @ [w]" and "out_pos th = length ws" and "opened w"
    and "\<forall>x\<in>set pre. clock x - start_time th < duration"
    and "\<not> clock t - start_time th < duration"
  shows "run_clip (pre @ t # t5 # t6 # rest) th self =
           Some (self\<lparr>recordings_dir := ws @ [release (written (grabbed pre) w)],
                      is_recording := False\<rparr>)"
  using assms
proof (induction pre arbitrary: self w)
  case Nil
  then show ?case
    by (cases rest) (simp_all add: record_clip_step_def on_writer_def written_def release_def)
next
  case (Cons x pre)
  let ?w' = "if cap_isOpened x
             then (case cap_read x of Some f \<Rightarrow> write_frame f w | None \<Rightarrow> w) else w"
  let ?self' = "self\<lparr>recordings_dir := ws @ [?w']\<rparr>"
  have step: "record_clip_step x th self = (th, ?self')"
    using Cons.prems by (auto simp: record_clip_step_def on_writer_def split: option.splits)
  have o: "opened ?w'"
    using Cons.prems by (simp add: write_frame_def split: option.splits)
  have "run_clip ((x # pre) @ t # t5 # t6 # rest) th self =
          run_clip (pre @ t # t5 # t6 # rest) th ?self'"
    using Cons.prems(1) step by simp
  also have "\<dots> = Some (?self'\<lparr>recordings_dir := ws @ [release (written (grabbed pre) ?w')],
                              is_recording := False\<rparr>)"
    using Cons.prems o by (intro Cons.IH) simp_all
  also have "release (written (grabbed pre) ?w') = release (written (grabbed (x # pre)) w)"
    using Cons.prems(5) by (simp add: written_def write_frame_def release_def split: option.splits)
  finally show ?case by simp
qed

lemma record_clip_fixed_duration:
  assumes "cap self \<noteq> None" and "\<not> is_recording self"
    and "\<forall>x\<in>set pre. clock x - clock t4 < 10" and "\<not> clock t - clock t4 < 10"
  shows "record_clip trigger (t1 # t2 # t3 # t4 # pre @ t # t5 # t6 # rest) self =
           Some (self\<lparr>recordings_dir := recordings_dir self @
                   [\<lparr>filename = ''../recordings/'' @ trigger @ ''_'' @ strftime t4 @ ''.mp4'',
                     frames = grabbed pre, opened = False\<rparr>]\<rparr>)"
proof -
  let ?th = "\<lparr>trigger_type = trigger, pc = Line171, out_pos = length (recordings_dir self),
              start_time = clock t4\<rparr>"
  let ?w = "\<lparr>filename = ''../recordings/'' @ trigger @ ''_'' @ strftime t4 @ ''.mp4'',
              frames = [], opened = True\<rparr>"
  let ?self = "self\<lparr>is_recording := True, recordings_dir := recordings_dir self @ [?w]\<rparr>"
  have "record_clip trigger (t1 # t2 # t3 # t4 # pre @ t # t5 # t6 # rest) self =
          run_clip (pre @ t # t5 # t6 # rest) ?th ?self"
    using assms(1,2) by (auto simp: record_clip_def spawn_record_clip_def record_clip_step_def)
  also have "\<dots> = Some (?self\<lparr>recordings_dir :=
                                recordings_dir self @ [release (written (grabbed pre) ?w)],
                              is_recording := False\<rparr>)"
    using assms by (intro loop_until_duration) (simp_all add: duration_def)
  finally show ?thesis using assms(2) by (simp add: release_def written_def)
qed

lemma app_session_stop:
  assumes "app_recording g cam_key = Some True" and "app_prev_frame g = Some prev"
    and "cap_read t = Some frame"
  shows "\<exists>g'. capture_pass cv cam_key t (g, Some w) = Inr (Some (g',
            Some (if app_motion cv prev (GaussianBlur cv (cvtColor cv frame) (21, 21) 0)
                  then write_frame frame w else release (write_frame frame w)))) \<and>
          app_recording g' cam_key =
            Some (app_motion cv prev (GaussianBlur cv (cvtColor cv frame) (21, 21) 0))"
  using assms
  by (auto simp: capture_pass_def Let_def lines_110_113_def lines_115_116_def lines_118_120_def)

text \<open>
  Claim C2 says that a session started by motion ends on the tick where the
  motion signal first reads false. In camera.py it does not: the thread started
  on the motion edge runs the same \<open>_record_clip\<close> as a manual one and never
  reads the signal. Here the stream sees motion begin, the thread opens its
  writer at time 0 and writes a frame at time 1, the stream then sees the same
  frame again and clears \<open>motion_detected\<close>, and at time 2 the thread writes a
  second frame: the session is open while the signal reads false.
\<close>

theorem motion_session_outlasts_motion:
  "\<not> motion_detected (camera (run row_cv motion_then_still (start device_3))) \<and>
   is_recording (camera (run row_cv motion_then_still (start device_3))) \<and>
   map (\<lambda>w. (opened w, frames w))
     (recordings_dir (camera (run row_cv motion_then_still (start device_3)))) =
     [(True, [lit, lit])] \<and>
   map (\<lambda>th. (trigger_type th, pc th))
     (threads (run row_cv motion_then_still (start device_3))) = [(''motion'', Line171)]"
  by code_simp

text \<open>
  Claim C2 as amended. The stop condition depends on the code path, not on the
  kind of trigger. In camera.py every session, started by motion or by hand,
  ends at the first test of the loop at which 10 seconds have passed since the
  writer was opened: at line 171 a thread stays in the loop or leaves it
  according to the clock alone, whatever the object's motion flag, and a thread
  run from its start writes the frames read before that test, releases its
  writer and clears \<open>is_recording\<close>. In the capture loop of app.py a session
  with an open writer goes on through a pass with motion and ends on the first
  pass without: that pass still writes its frame, then clears the flag and
  releases the writer.
\<close>

theorem stop_depends_on_code_path:
  "(pc th = Line171 \<longrightarrow>
      pc (fst (record_clip_step t th self)) =
        (if clock t - start_time th < 10 then Line171 else Line178)) \<and>
   (cap self \<noteq> None \<and> \<not> is_recording self \<and>
    (\<forall>x\<in>set pre. clock x - clock t4 < 10) \<and> \<not> clock t - clock t4 < 10 \<longrightarrow>
      record_clip trigger (t1 # t2 # t3 # t4 # pre @ t # t5 # t6 # rest) self =
        Some (self\<lparr>recordings_dir := recordings_dir self @
                [\<lparr>filename = ''../recordings/'' @ trigger @ ''_'' @ strftime t4 @ ''.mp4'',
                  frames = grabbed pre, opened = False\<rparr>]\<rparr>)) \<and>
   (app_recording g cam_key = Some True \<and> app_prev_frame g = Some prev \<and>
    cap_read tk = Some frame \<longrightarrow>
      (\<exists>g'. capture_pass cv cam_key tk (g, Some w) = Inr (Some (g',
            Some (if app_motion cv prev (GaussianBlur cv (cvtColor cv frame) (21, 21) 0)
                  then write_frame frame w else release (write_frame frame w)))) \<and>
          app_recording g' cam_key =
            Some (app_motion cv prev (GaussianBlur cv (cvtColor cv frame) (21, 21) 0))))"
proof (intro conjI impI)
  assume "pc th = Line171"
  then show "pc (fst (record_clip_step t th self)) =
        (if clock t - start_time th < 10 then Line171 else Line178)"
    by (simp add: record_clip_step_def duration_def)
next
  assume "cap self \<noteq> None \<and> \<not> is_recording self \<and>
    (\<forall>x\<in>set pre. clock x - clock t4 < 10) \<and> \<not> clock t - clock t4 < 10"
  then show "record_clip trigger (t1 # t2 # t3 # t4 # pre @ t # t5 # t6 # rest) self =
        Some (self\<lparr>recordings_dir := recordings_dir self @
                [\<lparr>filename = ''../recordings/'' @ trigger @ ''_'' @ strftime t4 @ ''.mp4'',
                  frames = grabbed pre, opened = False\<rparr>]\<rparr>)"
    by (intro record_clip_fixed_duration) simp_all
next
  assume "app_recording g cam_key = Some True \<and> app_prev_frame g = Some prev \<and>
    cap_read tk = Some frame"
  then show "\<exists>g'. capture_pass cv cam_key tk (g, Some w) = Inr (Some (g',
            Some (if app_motion cv prev (GaussianBlur cv (cvtColor cv frame) (21, 21) 0)
                  then write_frame frame w else release (write_frame frame w)))) \<and>
          app_recording g' cam_key =
            Some (app_motion cv prev (GaussianBlur cv (cvtColor cv frame) (21, 21) 0))"
    by (intro app_session_stop) simp_all
qed

theorem stop_depends_on_code_path_witness:
  "record_clip ''motion''
     (at_time 0 None # at_time 0 None # at_time 0 None # at_time 0 None #
      [at_time 1 (Some lit), at_time 9 (Some blank)] @
      at_time 10 (Some lit) # at_time 10 None # at_time 10 None # []) device_3 =
     Some (device_3\<lparr>recordings_dir := recordings_dir device_3 @
             [\<lparr>filename = ''../recordings/'' @ ''motion'' @ ''_'' @ strftime (at_time 0 None) @ ''.mp4'',
               frames = grabbed [at_time 1 (Some lit), at_time 9 (Some blank)],
               opened = False\<rparr>]\<rparr>) \<and>
   (\<exists>g'. capture_pass row_cv ''cam1'' (at_time 1 (Some blank)) (recording_cam1, Some clip) =
           Inr (Some (g', Some (release (write_frame blank clip)))) \<and>
         app_recording g' ''cam1'' = Some False)"
proof -
  have a: "cap device_3 \<noteq> None \<and> \<not> is_recording device_3 \<and>
     (\<forall>x\<in>set [at_time 1 (Some lit), at_time 9 (Some blank)].
        clock x - clock (at_time 0 None) < 10) \<and>
     \<not> clock (at_time 10 (Some lit)) - clock (at_time 0 None) < 10"
    by (simp add: device_3_def new_camera_def init_camera_def at_time_def)
  have b: "app_recording recording_cam1 ''cam1'' = Some True \<and>
     app_prev_frame recording_cam1 = Some blank \<and>
     cap_read (at_time 1 (Some blank)) = Some blank"
    by (simp add: recording_cam1_def seeded_def app_start_def at_time_def)
  have m: "\<not> app_motion row_cv blank (GaussianBlur row_cv (cvtColor row_cv blank) (21, 21) 0)"
    by (simp add: app_motion_def row_cv_def smooth_def blank_def)
  from stop_depends_on_code_path
    [where self = device_3 and pre = "[at_time 1 (Some lit), at_time 9 (Some blank)]"
       and ?t4.0 = "at_time 0 None" and t = "at_time 10 (Some lit)"
       and trigger = "''motion''" and ?t1.0 = "at_time 0 None" and ?t2.0 = "at_time 0 None"
       and ?t3.0 = "at_time 0 None" and ?t5.0 = "at_time 10 None" and ?t6.0 = "at_time 10 None"
       and rest = "[]" and g = recording_cam1 and cam_key = "''cam1''" and prev = blank
       and tk = "at_time 1 (Some blank)" and frame = blank and cv = row_cv and w = clip]
    a b m
  show ?thesis by simp
qed

end
